theory Spec2Isabelle
  imports Main
begin

section \<open>JavaScript strings and the string primitives the scraper uses\<close>

text \<open>
  A JavaScript string is modelled as a HOL \<open>string\<close>; each character stands for one
  code unit, and the model covers code units below 256 (ASCII and Latin-1).
  \<open>null\<close> and \<open>undefined\<close> are \<open>None\<close> of an option type. The empty string is falsy,
  every other string is truthy.
\<close>

definition isDigit :: "char \<Rightarrow> bool" where
  \<comment> \<open>the class \<open>\d\<close>: the ten ASCII digits\<close>
  "isDigit c = (48 \<le> (of_char c :: nat) \<and> (of_char c :: nat) \<le> 57)"

definition isSpace :: "char \<Rightarrow> bool" where
  \<comment> \<open>the class \<open>\s\<close>, which is also what \<open>trim\<close> strips: TAB, LF, VT, FF, CR, space, NBSP\<close>
  "isSpace c = ((of_char c :: nat) \<in> {9, 10, 11, 12, 13, 32, 160})"

definition isWordChar :: "char \<Rightarrow> bool" where
  \<comment> \<open>the class \<open>\w\<close>: \<open>[A-Za-z0-9_]\<close>\<close>
  "isWordChar c = (let n = (of_char c :: nat) in
     (48 \<le> n \<and> n \<le> 57) \<or> (65 \<le> n \<and> n \<le> 90) \<or> n = 95 \<or> (97 \<le> n \<and> n \<le> 122))"

definition lowerChar :: "char \<Rightarrow> char" where
  \<comment> \<open>\<open>toLowerCase\<close> on one code unit below 256: A-Z and the Latin-1 capitals\<close>
  "lowerChar c = (let n = (of_char c :: nat) in
     if (65 \<le> n \<and> n \<le> 90) \<or> (192 \<le> n \<and> n \<le> 222 \<and> n \<noteq> 215)
     then char_of (n + 32) else c)"

definition toLowerCase :: "string \<Rightarrow> string" where
  "toLowerCase s = map lowerChar s"

definition trim :: "string \<Rightarrow> string" where
  "trim s = rev (dropWhile isSpace (rev (dropWhile isSpace s)))"

fun startsWith :: "string \<Rightarrow> string \<Rightarrow> bool" where
  "startsWith s [] = True"
| "startsWith [] (p # ps) = False"
| "startsWith (c # cs) (p # ps) = (c = p \<and> startsWith cs ps)"

fun strIncludes :: "string \<Rightarrow> string \<Rightarrow> bool" where
  \<comment> \<open>\<open>s.includes(sub)\<close>\<close>
  "strIncludes [] sub = (sub = [])"
| "strIncludes (c # cs) sub = (startsWith (c # cs) sub \<or> strIncludes cs sub)"

fun collapseSpaces :: "bool \<Rightarrow> string \<Rightarrow> string" where
  \<comment> \<open>\<open>text.replace(/\s+/g, ' ')\<close>; the flag says that the previous character was
      white space, so that a run of white space yields one blank\<close>
  "collapseSpaces inRun [] = []"
| "collapseSpaces inRun (c # cs) =
     (if isSpace c then (if inRun then collapseSpaces True cs
                         else CHR '' '' # collapseSpaces True cs)
      else c # collapseSpaces False cs)"

definition cleanText :: "string \<Rightarrow> string" where
  "cleanText text' = (if text' = [] then [] else trim (collapseSpaces False text'))"

fun splitRuns :: "(char \<Rightarrow> bool) \<Rightarrow> bool \<Rightarrow> string \<Rightarrow> string \<Rightarrow> string list" where
  \<comment> \<open>\<open>s.split(/[...]+/)\<close>: the fields between maximal runs of separator characters;
      \<open>cur\<close> is the field being read, the flag says that a separator was just read\<close>
  "splitRuns P inSep cur [] = [cur]"
| "splitRuns P inSep cur (c # cs) =
     (if P c then (if inSep then splitRuns P True [] cs
                   else cur # splitRuns P True [] cs)
      else splitRuns P False (cur @ [c]) cs)"

fun stripDigitRuns :: "string \<Rightarrow> string \<Rightarrow> string" where
  \<comment> \<open>\<open>s.replace(/\d{5,}/g, '')\<close>: a maximal run of digits is dropped when it has five
      digits or more; \<open>run\<close> is the run of digits being read\<close>
  "stripDigitRuns run [] = (if 5 \<le> length run then [] else run)"
| "stripDigitRuns run (c # cs) =
     (if isDigit c then stripDigitRuns (run @ [c]) cs
      else (if 5 \<le> length run then [] else run) @ c # stripDigitRuns [] cs)"

section \<open>constants.js\<close>

record state_info =
  si_name :: string
  si_displayName :: string
  si_category :: string
  si_aliases :: "string list"

definition MALAYSIAN_STATES :: "(int \<times> state_info) list" where
  "MALAYSIAN_STATES =
   [(1, \<lparr>si_name = ''johor'', si_displayName = ''Johor'', si_category = ''regular'', si_aliases = []\<rparr>),
    (2, \<lparr>si_name = ''kedah'', si_displayName = ''Kedah'', si_category = ''regular'', si_aliases = []\<rparr>),
    (3, \<lparr>si_name = ''kelantan'', si_displayName = ''Kelantan'', si_category = ''regular'', si_aliases = []\<rparr>),
    (4, \<lparr>si_name = ''melaka'', si_displayName = ''Melaka'', si_category = ''regular'', si_aliases = []\<rparr>),
    (5, \<lparr>si_name = ''negeri sembilan'', si_displayName = ''Negeri Sembilan'', si_category = ''regular'',
         si_aliases = []\<rparr>),
    (6, \<lparr>si_name = ''pahang'', si_displayName = ''Pahang'', si_category = ''regular'', si_aliases = []\<rparr>),
    (7, \<lparr>si_name = ''perak'', si_displayName = ''Perak'', si_category = ''regular'', si_aliases = []\<rparr>),
    (8, \<lparr>si_name = ''perlis'', si_displayName = ''Perlis'', si_category = ''regular'', si_aliases = []\<rparr>),
    (9, \<lparr>si_name = ''pulau pinang'', si_displayName = ''Pulau Pinang'', si_category = ''regular'',
         si_aliases = [''penang'']\<rparr>),
    (10, \<lparr>si_name = ''sabah'', si_displayName = ''Sabah'', si_category = ''regular'', si_aliases = []\<rparr>),
    (11, \<lparr>si_name = ''sarawak'', si_displayName = ''Sarawak'', si_category = ''regular'', si_aliases = []\<rparr>),
    (12, \<lparr>si_name = ''selangor'', si_displayName = ''Selangor'', si_category = ''regular'', si_aliases = []\<rparr>),
    (13, \<lparr>si_name = ''terengganu'', si_displayName = ''Terengganu'', si_category = ''regular'',
          si_aliases = []\<rparr>),
    (14, \<lparr>si_name = ''kuala lumpur'', si_displayName = ''Kuala Lumpur'',
          si_category = ''federal_territory'', si_aliases = []\<rparr>),
    (15, \<lparr>si_name = ''labuan'', si_displayName = ''Labuan'', si_category = ''federal_territory'',
          si_aliases = []\<rparr>),
    (16, \<lparr>si_name = ''putrajaya'', si_displayName = ''Putrajaya'', si_category = ''federal_territory'',
          si_aliases = []\<rparr>),
    (20, \<lparr>si_name = ''foreign'', si_displayName = ''Foreign, specify'', si_category = ''special'',
          si_aliases = []\<rparr>),
    (9999, \<lparr>si_name = ''missing'', si_displayName = ''Missing'', si_category = ''special'',
            si_aliases = []\<rparr>)]"

definition STATE_NAME_TO_ID :: "(string \<times> int) list" where
  \<comment> \<open>the reverse mapping, filled entry by entry; a later assignment to a key wins, which
      \<open>map_of\<close> on the reversed list gives\<close>
  "STATE_NAME_TO_ID =
     rev (concat (map (\<lambda>(i, d). (toLowerCase (si_name d), i) # map (\<lambda>a. (toLowerCase a, i)) (si_aliases d))
                      MALAYSIAN_STATES))"

subsection \<open>The regular expressions of \<open>PATTERNS\<close>\<close>

datatype tok = Ch char | WS1
  \<comment> \<open>a letter of the pattern, matched without regard to case, and \<open>\s+\<close>\<close>

definition ciEq :: "char \<Rightarrow> char \<Rightarrow> bool" where
  \<comment> \<open>a lower-case ASCII letter of a pattern with flag \<open>i\<close> matches itself and its capital\<close>
  "ciEq p x = (x = p \<or> lowerChar x = p \<and> (of_char x :: nat) < 128)"

fun matchToks :: "tok list \<Rightarrow> string \<Rightarrow> string list" where
  \<comment> \<open>the remainders of the input after each way of matching the tokens at its start, in
      the order in which a backtracking matcher tries them (\<open>\s+\<close> is greedy)\<close>
  "matchToks [] s = [s]"
| "matchToks (Ch p # ts) s =
     (case s of [] \<Rightarrow> [] | x # xs \<Rightarrow> if ciEq p x then matchToks ts xs else [])"
| "matchToks (WS1 # ts) s =
     concat (map (\<lambda>k. matchToks ts (drop k s))
                 (rev [1 ..< Suc (length (takeWhile isSpace s))]))"

definition lit :: "string \<Rightarrow> tok list" where
  "lit s = map Ch s"

definition stateAlternatives :: "tok list list" where
  \<comment> \<open>the alternatives of the group of \<open>PATTERNS.state\<close>, in the order of the source\<close>
  "stateAlternatives =
    [lit ''johor'', lit ''kedah'', lit ''kelantan'', lit ''melaka'',
     lit ''negeri'' @ WS1 # lit ''sembilan'', lit ''pahang'', lit ''perak'', lit ''perlis'',
     lit ''pulau'' @ WS1 # lit ''pinang'', lit ''penang'', lit ''sabah'', lit ''sarawak'',
     lit ''selangor'', lit ''terengganu'', lit ''kuala'' @ WS1 # lit ''lumpur'',
     lit ''labuan'', lit ''putrajaya'']"

definition isWordOpt :: "char option \<Rightarrow> bool" where
  "isWordOpt c = (case c of None \<Rightarrow> False | Some x \<Rightarrow> isWordChar x)"

definition headOpt :: "string \<Rightarrow> char option" where
  "headOpt s = (case s of [] \<Rightarrow> None | c # _ \<Rightarrow> Some c)"

definition lastOpt :: "string \<Rightarrow> char option" where
  "lastOpt s = (case rev s of [] \<Rightarrow> None | c # _ \<Rightarrow> Some c)"

definition wordBoundary :: "char option \<Rightarrow> char option \<Rightarrow> bool" where
  \<comment> \<open>\<open>\b\<close> between the character before and the character after a position\<close>
  "wordBoundary before after = (isWordOpt before \<noteq> isWordOpt after)"

definition stateMatchAt :: "char option \<Rightarrow> string \<Rightarrow> string option" where
  \<comment> \<open>\<open>\b(alt1|alt2|...)\b\<close> tried at one position; \<open>prev\<close> is the character before it. The
      result is the text captured by the group.\<close>
  "stateMatchAt prev s =
     (if wordBoundary prev (headOpt s) then
        (case filter (\<lambda>r. wordBoundary (lastOpt (take (length s - length r) s)) (headOpt r))
                     (concat (map (\<lambda>alt. matchToks alt s) stateAlternatives)) of
           [] \<Rightarrow> None
         | r # _ \<Rightarrow> Some (take (length s - length r) s))
      else None)"

fun stateSearch :: "char option \<Rightarrow> string \<Rightarrow> string option" where
  \<comment> \<open>the leftmost match of \<open>PATTERNS.state\<close>: \<open>match[1]\<close> of \<open>address.match(PATTERNS.state)\<close>\<close>
  "stateSearch prev [] = stateMatchAt prev []"
| "stateSearch prev (c # cs) =
     (case stateMatchAt prev (c # cs) of
        Some g \<Rightarrow> Some g
      | None \<Rightarrow> stateSearch (Some c) cs)"

definition stateTest :: "string \<Rightarrow> bool" where
  \<comment> \<open>\<open>PATTERNS.state.test(s)\<close>\<close>
  "stateTest s = (stateSearch None s \<noteq> None)"

section \<open>utils.js\<close>

definition getStateIdByName :: "string \<Rightarrow> int option" where
  "getStateIdByName nm =
     (if nm = [] then None
      else map_of STATE_NAME_TO_ID (trim (toLowerCase nm)))"

definition getStateById :: "int \<Rightarrow> state_info option" where
  "getStateById sid = map_of MALAYSIAN_STATES sid"

record state_result =
  sr_stateId :: int
  sr_stateName :: string
  sr_stateCategory :: string

definition missingState :: state_result where
  "missingState = \<lparr>sr_stateId = 9999, sr_stateName = ''Missing'', sr_stateCategory = ''special''\<rparr>"

definition extractStateFromAddress :: "string option \<Rightarrow> state_result" where
  "extractStateFromAddress address =
     (case address of
        None \<Rightarrow> missingState
      | Some a \<Rightarrow>
          if a = [] then missingState
          else (case stateSearch None a of
                  None \<Rightarrow> missingState
                | Some m \<Rightarrow>
                    (case getStateIdByName (trim (toLowerCase m)) of
                       None \<Rightarrow> missingState
                     | Some sid \<Rightarrow>
                         (case getStateById sid of
                            None \<Rightarrow> missingState
                          | Some info \<Rightarrow>
                              \<lparr>sr_stateId = sid, sr_stateName = si_displayName info,
                               sr_stateCategory = si_category info\<rparr>))))"

definition isSeparator :: "char \<Rightarrow> bool" where
  \<comment> \<open>the class \<open>[,\n]\<close>\<close>
  "isSeparator c = (c = CHR '','' \<or> c = CHR 0x0A)"

definition addressParts :: "string \<Rightarrow> string list" where
  \<comment> \<open>\<open>cleaned.split(/[,\n]+/).map(p => p.trim()).filter(Boolean)\<close>\<close>
  "addressParts cleaned = filter (\<lambda>p. p \<noteq> []) (map trim (splitRuns isSeparator False [] cleaned))"

definition extractCityFromAddress :: "string option \<Rightarrow> string option" where
  "extractCityFromAddress address =
     (case address of
        None \<Rightarrow> None
      | Some a \<Rightarrow>
          if a = [] then None
          else (let cleaned = stripDigitRuns [] a;
                    parts = addressParts cleaned
                in if 2 \<le> length parts
                   then (let potentialCity = parts ! (length parts - 2)
                         in if \<not> stateTest potentialCity then Some potentialCity else None)
                   else None))"

definition isValidNsrNumber :: "string option \<Rightarrow> bool" where
  "isValidNsrNumber nsrNo =
     (case nsrNo of
        None \<Rightarrow> False
      | Some s \<Rightarrow> if s = [] then False else 6 \<le> length (filter isDigit s))"

definition buildProfileUrl :: "string \<Rightarrow> string" where
  "buildProfileUrl nsrNo = ''https://nsr.org.my/nsr/ViewSpecialistProfile.jsp?nsrNo='' @ nsrNo"

subsection \<open>Numbers read from text\<close>

datatype jsnum = Num int | NaN
  \<comment> \<open>the result of \<open>parseInt\<close>. A JavaScript number is a double; the integers that the
      comparisons of this program meet (page numbers against the current page and 1000)
      are compared as the doubles are, since rounding to a double is monotone and exact
      below \<open>2^53\<close>.\<close>

definition digitValue :: "char \<Rightarrow> nat" where
  "digitValue c = (let n = (of_char c :: nat) in
     if 48 \<le> n \<and> n \<le> 57 then n - 48
     else if 97 \<le> n \<and> n \<le> 102 then n - 87
     else n - 55)"

definition isHexDigit :: "char \<Rightarrow> bool" where
  "isHexDigit c = (let n = (of_char c :: nat) in
     (48 \<le> n \<and> n \<le> 57) \<or> (65 \<le> n \<and> n \<le> 70) \<or> (97 \<le> n \<and> n \<le> 102))"

definition digitsValue :: "nat \<Rightarrow> string \<Rightarrow> int" where
  "digitsValue radix ds = int (foldl (\<lambda>acc c. acc * radix + digitValue c) 0 ds)"

definition parseInt :: "string \<Rightarrow> jsnum" where
  \<comment> \<open>\<open>parseInt(s)\<close> with no radix: leading white space, a sign, \<open>0x\<close> or \<open>0X\<close> for
      radix 16, then the longest run of digits; \<open>NaN\<close> when that run is empty\<close>
  "parseInt s =
     (let s1 = dropWhile isSpace s;
          neg = startsWith s1 ''-'';
          s2 = (if startsWith s1 ''-'' \<or> startsWith s1 ''+'' then drop 1 s1 else s1);
          hex = (startsWith s2 ''0x'' \<or> startsWith s2 ''0X'');
          s3 = (if hex then drop 2 s2 else s2);
          ds = (if hex then takeWhile isHexDigit s3 else takeWhile isDigit s3)
      in if ds = [] then NaN
         else Num ((if neg then - 1 else 1) * digitsValue (if hex then 16 else 10) ds))"

definition numGe :: "jsnum \<Rightarrow> int \<Rightarrow> bool" where
  \<comment> \<open>\<open>n >= k\<close>; false when \<open>n\<close> is \<open>NaN\<close>\<close>
  "numGe n k = (case n of NaN \<Rightarrow> False | Num i \<Rightarrow> k \<le> i)"

definition numLe :: "jsnum \<Rightarrow> int \<Rightarrow> bool" where
  "numLe n k = (case n of NaN \<Rightarrow> False | Num i \<Rightarrow> i \<le> k)"

definition numGt :: "jsnum \<Rightarrow> int \<Rightarrow> bool" where
  "numGt n k = (case n of NaN \<Rightarrow> False | Num i \<Rightarrow> k < i)"

subsection \<open>Gender and date\<close>

definition upperChar :: "char \<Rightarrow> char" where
  \<comment> \<open>\<open>toUpperCase\<close> on one code unit: a-z and the Latin-1 small letters with a Latin-1
      capital\<close>
  "upperChar c = (let n = (of_char c :: nat) in
     if (97 \<le> n \<and> n \<le> 122) \<or> (224 \<le> n \<and> n \<le> 254 \<and> n \<noteq> 247)
     then char_of (n - 32) else c)"

definition genderAlternatives :: "tok list list" where
  "genderAlternatives = [lit ''male'', lit ''female'']"

definition genderMatchAt :: "string \<Rightarrow> string option" where
  "genderMatchAt s =
     (case concat (map (\<lambda>alt. matchToks alt s) genderAlternatives) of
        [] \<Rightarrow> None
      | r # _ \<Rightarrow> Some (take (length s - length r) s))"

fun genderSearch :: "string \<Rightarrow> string option" where
  \<comment> \<open>\<open>match[1]\<close> of \<open>text.match(PATTERNS.gender)\<close>, the leftmost match of \<open>/(male|female)/i\<close>\<close>
  "genderSearch [] = None"
| "genderSearch (c # cs) =
     (case genderMatchAt (c # cs) of
        Some g \<Rightarrow> Some g
      | None \<Rightarrow> genderSearch cs)"

definition extractGender :: "string \<Rightarrow> string option" where
  "extractGender t =
     (if t = [] then None
      else (case genderSearch t of
              None \<Rightarrow> None
            | Some m \<Rightarrow> Some (map upperChar (take 1 m) @ toLowerCase (drop 1 m))))"

definition parseDate :: "(string \<Rightarrow> string option) \<Rightarrow> string \<Rightarrow> string option" where
  \<comment> \<open>\<open>dateLib\<close> stands for the built-in \<open>Date\<close>: the ISO calendar date that
      \<open>new Date(dateStr)\<close> denotes, \<open>None\<close> when the date is invalid\<close>
  "parseDate dateLib dateStr = (if dateStr = [] then None else dateLib dateStr)"

section \<open>parser.js\<close>

text \<open>
  The parsers read the document through cheerio queries. The model starts from what the
  queries return: the elements of a selection in document order, with the attributes,
  the class tests and the text that the code reads from them.
\<close>

record anchor =
  a_href :: "string option"   \<comment> \<open>\<open>attr('href')\<close>\<close>
  a_text :: string            \<comment> \<open>\<open>text()\<close> of the element\<close>
  a_classDisabled :: bool     \<comment> \<open>the element has class \<open>disabled\<close>\<close>
  a_attrDisabled :: bool      \<comment> \<open>the element has an attribute \<open>disabled\<close>\<close>

definition selText :: "anchor list \<Rightarrow> string" where
  \<comment> \<open>\<open>text()\<close> of a selection: the texts of its elements, concatenated\<close>
  "selText sel = concat (map a_text sel)"

definition selHref :: "anchor list \<Rightarrow> string option" where
  \<comment> \<open>\<open>attr('href')\<close> of a selection: the attribute of its first element\<close>
  "selHref sel = (case sel of [] \<Rightarrow> None | a # _ \<Rightarrow> a_href a)"

definition truthy :: "string option \<Rightarrow> bool" where
  "truthy v = (case v of None \<Rightarrow> False | Some s \<Rightarrow> s \<noteq> [])"

record cell =
  c_text :: string            \<comment> \<open>\<open>$(cell).text()\<close>\<close>
  c_links :: "anchor list"    \<comment> \<open>\<open>$(cell).find('a')\<close>\<close>

record row =
  r_tableHeading :: bool      \<comment> \<open>\<open>$row.hasClass('table-heading')\<close>\<close>
  r_cells :: "cell list"      \<comment> \<open>\<open>$row.find('td').toArray()\<close>\<close>

record listing_stub =
  ls_nsrNo :: string
  ls_title :: string
  ls_name :: string
  ls_gender :: string
  ls_location :: string
  ls_specialty :: string
  ls_profileUrl :: string

definition parseListingRow :: "row \<Rightarrow> listing_stub option" where
  \<comment> \<open>the body of the callback of \<open>each\<close>: \<open>None\<close> is a \<open>return\<close> before the \<open>push\<close>\<close>
  "parseListingRow r =
     (if r_tableHeading r then None
      else (let cells = r_cells r in
        if length cells < 6 then None
        else (let nsrNo = cleanText (c_text (cells ! 0)) in
          if \<not> isValidNsrNumber (Some nsrNo) then None
          else (let nameCell = cells ! 2;
                    nameLink = c_links nameCell
                in Some \<lparr>ls_nsrNo = nsrNo,
                         ls_title = cleanText (c_text (cells ! 1)),
                         ls_name = cleanText (if selText nameLink \<noteq> [] then selText nameLink
                                              else c_text nameCell),
                         ls_gender = cleanText (c_text (cells ! 3)),
                         ls_location = cleanText (c_text (cells ! 4)),
                         ls_specialty = cleanText (c_text (cells ! 5)),
                         ls_profileUrl =
                           (case selHref nameLink of
                              None \<Rightarrow> buildProfileUrl nsrNo
                            | Some h \<Rightarrow> if h \<noteq> [] then ''https://www.nsr.org.my/'' @ h
                                        else buildProfileUrl nsrNo)\<rparr>))))"

definition parseListingPage :: "row list \<Rightarrow> listing_stub list" where
  \<comment> \<open>the argument is \<open>$('table.searchlist tbody tr')\<close>; the loop pushes onto
      \<open>specialists\<close>\<close>
  "parseListingPage rows =
     foldl (\<lambda>specialists r. case parseListingRow r of
                               None \<Rightarrow> specialists
                             | Some s \<Rightarrow> specialists @ [s]) [] rows"

definition noResultsTexts :: "string list" where
  "noResultsTexts = [''no records found'', ''no results'', ''no specialist found'',
                     ''tidak ada rekod'', ''no data available'']"

definition hasResults :: "row list \<Rightarrow> string \<Rightarrow> bool" where
  \<comment> \<open>the rows are \<open>$('table.searchlist tbody tr')\<close>, the text is \<open>$('body').text()\<close>\<close>
  "hasResults rows bodyText =
     (if 0 < length (filter (\<lambda>r. \<not> r_tableHeading r) rows) then True
      else if list_ex (\<lambda>t. strIncludes (toLowerCase bodyText) t) noResultsTexts then False
      else False)"

record pagination_dom =
  pg_containers :: nat
    \<comment> \<open>the number of elements of \<open>$('.pagination, .paging, [class*="page"]')\<close>\<close>
  pg_active :: "string list"
    \<comment> \<open>the texts of \<open>$pagination.find('.active, .current, [class*="active"]')\<close>\<close>
  pg_links :: "string list"
    \<comment> \<open>the texts of \<open>$pagination.find('a, button, [data-page]')\<close>\<close>
  pg_next :: "bool list"
    \<comment> \<open>one entry for each element of the selection of next controls inside
        \<open>$pagination\<close>, true when the element has class \<open>disabled\<close>\<close>

record pagination_info =
  pi_currentPage :: int
  pi_totalPages :: int
  pi_hasNext :: bool

definition pageNumbersOf :: "string list \<Rightarrow> int list" where
  "pageNumbersOf texts =
     foldl (\<lambda>pageNumbers t. case parseInt (cleanText t) of
                               NaN \<Rightarrow> pageNumbers
                             | Num n \<Rightarrow> pageNumbers @ [n]) [] texts"

definition parsePaginationInfo :: "pagination_dom \<Rightarrow> pagination_info" where
  "parsePaginationInfo d =
     (let info0 = \<lparr>pi_currentPage = 1, pi_totalPages = 1, pi_hasNext = False\<rparr> in
      if pg_containers d = 0 then info0
      else
        (let info1 = (if pg_active d \<noteq> []
                      then (case parseInt (cleanText (concat (pg_active d))) of
                              NaN \<Rightarrow> info0
                            | Num n \<Rightarrow> info0\<lparr>pi_currentPage := n\<rparr>)
                      else info0);
             pageNumbers = pageNumbersOf (pg_links d);
             info2 = (case pageNumbers of
                        [] \<Rightarrow> info1
                      | n # ns \<Rightarrow> info1\<lparr>pi_totalPages := foldl max n ns\<rparr>)
         in info2\<lparr>pi_hasNext := (0 < length (pg_next d) \<and> \<not> list_ex (\<lambda>b. b) (pg_next d))\<rparr>))"

subsection \<open>The profile page\<close>

record qualification =
  q_degree :: string
  q_awardingBody :: string
  q_year :: "jsnum option"

record specialist =
  sp_nsrNo :: string
  sp_profileUrl :: string
  sp_name :: "string option"
  sp_jobTitle :: "string option"
  sp_title :: "string option"
  sp_gender :: "string option"
  sp_specialty :: "string option"
  sp_qualifications :: "string list"
  sp_qualificationsStructured :: "qualification list"
  sp_state :: "string option"
  sp_stateId :: "int option"
  sp_state_category :: "string option"
  sp_city :: "string option"
  sp_address :: "string option"
  sp_establishment :: "string option"
  sp_sector :: "string option"
  sp_lastRenewalDate :: "string option"

record profile_table =
  pt_text :: string                 \<comment> \<open>\<open>$table.text()\<close>\<close>
  pt_rows :: "string list list"     \<comment> \<open>for each \<open>tr\<close> of the table, the texts of its \<open>td\<close> cells\<close>

record profile_dom =
  pd_tables :: "profile_table list"
    \<comment> \<open>\<open>$('table.table-bordered')\<close>\<close>
  pd_nameElements :: "string list"
    \<comment> \<open>the texts of \<open>$('#specialistName, .specialist-name, [data-field="name"]')\<close>\<close>
  pd_specialtyElements :: "string list"
    \<comment> \<open>the texts of \<open>$('#specialty, .specialty, [data-field="specialty"]')\<close>\<close>
  pd_dls :: "(string list \<times> string list) list"
    \<comment> \<open>for each \<open>dl\<close>, the texts of its \<open>dt\<close> and of its \<open>dd\<close> elements\<close>

record section_flags =
  inPersonalData :: bool
  inClinicalPractice :: bool
  inQualifications :: bool

definition updateSection :: "section_flags \<Rightarrow> string \<Rightarrow> section_flags" where
  "updateSection sec tableText =
     (if strIncludes tableText ''Personal Data''
      then \<lparr>inPersonalData = True, inClinicalPractice = False, inQualifications = False\<rparr>
      else if strIncludes tableText ''Clinical Practice''
      then \<lparr>inPersonalData = False, inClinicalPractice = True, inQualifications = False\<rparr>
      else if strIncludes tableText ''Qualifications''
              \<or> strIncludes tableText ''Degree/Membership/Fellowship''
      then \<lparr>inPersonalData = False, inClinicalPractice = False, inQualifications = True\<rparr>
      else sec)"

definition setAddress :: "specialist \<Rightarrow> string \<Rightarrow> specialist" where
  \<comment> \<open>the address with the state and the city derived from it\<close>
  "setAddress sp v =
     (let stateInfo = extractStateFromAddress (Some v)
      in sp\<lparr>sp_address := Some v,
            sp_state := Some (sr_stateName stateInfo),
            sp_stateId := Some (sr_stateId stateInfo),
            sp_state_category := Some (sr_stateCategory stateInfo),
            sp_city := extractCityFromAddress (Some v)\<rparr>)"

definition qualificationRow :: "specialist \<Rightarrow> string list \<Rightarrow> specialist" where
  "qualificationRow sp cells =
     (let degree = cleanText (cells ! 0);
          awardingBody = cleanText (cells ! 1);
          year = cleanText (cells ! 2)
      in if degree \<noteq> []
            \<and> \<not> strIncludes (toLowerCase degree) ''degree/membership''
            \<and> \<not> strIncludes (toLowerCase degree) ''basic degree''
            \<and> \<not> strIncludes (toLowerCase degree) ''specialist degree''
            \<and> awardingBody \<noteq> []
            \<and> \<not> strIncludes (toLowerCase awardingBody) ''awarding body''
         then sp\<lparr>sp_qualifications :=
                    sp_qualifications sp @ [degree @ '' ('' @ awardingBody @ '', '' @ year @ '')''],
                  sp_qualificationsStructured :=
                    sp_qualificationsStructured sp @
                      [\<lparr>q_degree = degree, q_awardingBody = awardingBody,
                        q_year = (if year \<noteq> [] then Some (parseInt year) else None)\<rparr>]\<rparr>
         else sp)"

definition labelRow ::
  "(string \<Rightarrow> string option) \<Rightarrow> string \<Rightarrow> section_flags \<Rightarrow> specialist \<Rightarrow> string list \<Rightarrow> specialist"
where
  "labelRow dateLib nsrNo sec sp cells =
     (let label = toLowerCase (cleanText (cells ! (length cells - 2)));
          v = cleanText (cells ! (length cells - 1))
      in if strIncludes label ''nsr no'' then sp\<lparr>sp_nsrNo := (if v \<noteq> [] then v else nsrNo)\<rparr>
         else if label = ''title'' \<and> inPersonalData sec then sp\<lparr>sp_title := Some v\<rparr>
         else if label = ''name'' \<and> inPersonalData sec then sp\<lparr>sp_name := Some v\<rparr>
         else if label = ''name'' \<and> inClinicalPractice sec then sp\<lparr>sp_establishment := Some v\<rparr>
         else if strIncludes label ''gender''
         then sp\<lparr>sp_gender := Some (case extractGender v of Some g \<Rightarrow> g | None \<Rightarrow> v)\<rparr>
         else if strIncludes label ''field'' \<and> strIncludes label ''practice''
         then sp\<lparr>sp_specialty := Some v\<rparr>
         else if strIncludes label ''address'' then setAddress sp v
         else if strIncludes label ''sector'' then sp\<lparr>sp_sector := Some v\<rparr>
         else if strIncludes label ''renewal'' \<or> strIncludes label ''last renewed''
         then sp\<lparr>sp_lastRenewalDate := parseDate dateLib v\<rparr>
         else sp)"

definition profileRow ::
  "(string \<Rightarrow> string option) \<Rightarrow> string \<Rightarrow> section_flags \<Rightarrow> specialist \<Rightarrow> string list \<Rightarrow> specialist"
where
  "profileRow dateLib nsrNo sec sp cells =
     (if inQualifications sec \<and> length cells = 3 then qualificationRow sp cells
      else if 2 \<le> length cells then labelRow dateLib nsrNo sec sp cells
      else sp)"

definition profileTable ::
  "(string \<Rightarrow> string option) \<Rightarrow> string \<Rightarrow> section_flags \<times> specialist \<Rightarrow> profile_table
     \<Rightarrow> section_flags \<times> specialist"
where
  "profileTable dateLib nsrNo st t =
     (let sec = updateSection (fst st) (pt_text t)
      in (sec, foldl (profileRow dateLib nsrNo sec) (snd st) (pt_rows t)))"

definition dlPair :: "specialist \<Rightarrow> string \<times> string \<Rightarrow> specialist" where
  "dlPair sp lv =
     (let labelText = toLowerCase (cleanText (fst lv));
          valueText = cleanText (snd lv)
      in if strIncludes labelText ''name'' \<and> \<not> truthy (sp_name sp)
         then sp\<lparr>sp_name := Some valueText\<rparr>
         else if strIncludes labelText ''specialty'' \<and> \<not> truthy (sp_specialty sp)
         then sp\<lparr>sp_specialty := Some valueText\<rparr>
         else if strIncludes labelText ''address'' \<and> \<not> truthy (sp_address sp)
         then setAddress sp valueText
         else sp)"

definition dlList :: "specialist \<Rightarrow> string list \<times> string list \<Rightarrow> specialist" where
  \<comment> \<open>a label whose index has no value is skipped, which is what \<open>zip\<close> does\<close>
  "dlList sp dl = foldl dlPair sp (zip (fst dl) (snd dl))"

definition initialSpecialist :: "string \<Rightarrow> specialist" where
  "initialSpecialist nsrNo =
     \<lparr>sp_nsrNo = nsrNo, sp_profileUrl = buildProfileUrl nsrNo, sp_name = None,
      sp_jobTitle = None, sp_title = None, sp_gender = None, sp_specialty = None,
      sp_qualifications = [], sp_qualificationsStructured = [], sp_state = None,
      sp_stateId = None, sp_state_category = None, sp_city = None, sp_address = None,
      sp_establishment = None, sp_sector = None, sp_lastRenewalDate = None\<rparr>"

definition nameFallback :: "profile_dom \<Rightarrow> specialist \<Rightarrow> specialist" where
  "nameFallback d sp =
     (if pd_nameElements d \<noteq> [] \<and> \<not> truthy (sp_name sp)
      then sp\<lparr>sp_name := Some (cleanText (concat (pd_nameElements d)))\<rparr> else sp)"

definition specialtyFallback :: "profile_dom \<Rightarrow> specialist \<Rightarrow> specialist" where
  "specialtyFallback d sp =
     (if pd_specialtyElements d \<noteq> [] \<and> \<not> truthy (sp_specialty sp)
      then sp\<lparr>sp_specialty := Some (cleanText (concat (pd_specialtyElements d)))\<rparr> else sp)"

definition stateFallback :: "specialist \<Rightarrow> specialist" where
  "stateFallback sp =
     (if \<not> truthy (sp_state sp) \<and> truthy (sp_address sp)
      then (let stateInfo = extractStateFromAddress (sp_address sp)
            in sp\<lparr>sp_state := Some (sr_stateName stateInfo),
                  sp_stateId := Some (sr_stateId stateInfo),
                  sp_state_category := Some (sr_stateCategory stateInfo)\<rparr>)
      else sp)"

definition parseProfilePage ::
  "(string \<Rightarrow> string option) \<Rightarrow> profile_dom \<Rightarrow> string \<Rightarrow> specialist"
where
  "parseProfilePage dateLib d nsrNo =
     (let start = (\<lparr>inPersonalData = False, inClinicalPractice = False,
                    inQualifications = False\<rparr>, initialSpecialist nsrNo);
          sp1 = snd (foldl (profileTable dateLib nsrNo) start (pd_tables d));
          sp2 = nameFallback d sp1;
          sp3 = specialtyFallback d sp2;
          sp4 = foldl dlList sp3 (pd_dls d)
      in stateFallback sp4)"

section \<open>main.js: the form, the requests and the handlers\<close>

record option_elem =
  oe_value :: "string option"   \<comment> \<open>\<open>attr('value')\<close> of the option\<close>
  oe_text :: string             \<comment> \<open>\<open>text()\<close> of the option\<close>

record form_elem =
  fe_name :: "string option"      \<comment> \<open>\<open>attr('name')\<close>\<close>
  fe_type :: "string option"      \<comment> \<open>\<open>attr('type')\<close>\<close>
  fe_tagName :: string            \<comment> \<open>\<open>prop('tagName')\<close>, as \<open>INPUT\<close> or \<open>SELECT\<close>\<close>
  fe_value :: "string option"     \<comment> \<open>\<open>attr('value')\<close>\<close>
  fe_checked :: bool              \<comment> \<open>\<open>is(':checked')\<close>\<close>
  fe_selected :: "option_elem list"   \<comment> \<open>\<open>find('option:selected')\<close>\<close>
  fe_options :: "option_elem list"    \<comment> \<open>\<open>find('option')\<close>\<close>

definition orElse :: "string option \<Rightarrow> string \<Rightarrow> string" where
  \<comment> \<open>\<open>v || d\<close> for a string or undefined \<open>v\<close>\<close>
  "orElse v d = (case v of None \<Rightarrow> d | Some s \<Rightarrow> if s \<noteq> [] then s else d)"

definition selectValue :: "form_elem \<Rightarrow> string" where
  "selectValue el =
     (if fe_selected el \<noteq> []
      then orElse (case fe_selected el of [] \<Rightarrow> None | opt # _ \<Rightarrow> oe_value opt)
                  (concat (map oe_text (fe_selected el)))
      else orElse (case fe_options el of [] \<Rightarrow> None | opt # _ \<Rightarrow> oe_value opt) [])"

definition formField :: "(string \<rightharpoonup> string) \<Rightarrow> form_elem \<Rightarrow> (string \<rightharpoonup> string)" where
  \<comment> \<open>the callback of \<open>each\<close> in \<open>extractFormFields\<close>\<close>
  "formField formData el =
     (let ty = orElse (fe_type el) (toLowerCase (fe_tagName el)) in
      case fe_name el of
        None \<Rightarrow> formData
      | Some nm \<Rightarrow>
          if nm = [] then formData
          else if ty = ''hidden'' \<or> ty = ''input'' then formData(nm \<mapsto> orElse (fe_value el) [])
          else if ty = ''select'' then formData(nm \<mapsto> selectValue el)
          else if ty = ''checkbox'' \<or> ty = ''radio''
          then (if fe_checked el then formData(nm \<mapsto> orElse (fe_value el) ''on'') else formData)
          else formData)"

definition extractFormFields :: "form_elem list \<Rightarrow> (string \<rightharpoonup> string)" where
  \<comment> \<open>the argument is \<open>$('form').find('input, select')\<close>\<close>
  "extractFormFields els = foldl formField Map.empty els"

subsection \<open>Numbers written as text\<close>

definition digitChar :: "nat \<Rightarrow> char" where
  "digitChar d = char_of (48 + d)"

function natToString :: "nat \<Rightarrow> string" where
  "natToString n = (if n < 10 then [digitChar n]
                    else natToString (n div 10) @ [digitChar (n mod 10)])"
  by pat_completeness auto
termination
  by (relation "measure (\<lambda>n. n)") auto

definition intToString :: "int \<Rightarrow> string" where
  \<comment> \<open>\<open>n.toString()\<close> of an integer\<close>
  "intToString i = (if i < 0 then CHR ''-'' # natToString (nat (- i)) else natToString (nat i))"

subsection \<open>Requests\<close>

record user_data =
  ud_label :: string
  ud_nsrNo :: "string option"
  ud_stateId :: "int option"
  ud_stateName :: "string option"
  ud_page :: "int option"

record request =
  rq_url :: string
  rq_uniqueKey :: "string option"   \<comment> \<open>\<open>None\<close> when the request states no \<open>uniqueKey\<close>\<close>
  rq_userData :: user_data

datatype selector =
    SelNext             \<comment> \<open>\<open>a:contains("Next")\<close>\<close>
  | SelRsaquo           \<comment> \<open>\<open>a:contains(...)\<close> with the single right angle quotation mark\<close>
  | SelGtGt             \<comment> \<open>\<open>a:contains(">>")\<close>\<close>
  | SelGt               \<comment> \<open>\<open>a:contains(">")\<close>\<close>
  | SelClassNext        \<comment> \<open>\<open>[class*="next"] a\<close>\<close>
  | SelPaginationLast   \<comment> \<open>\<open>.pagination a:last-child\<close>\<close>
  | SelPageLinks        \<comment> \<open>\<open>a[href*="page="], a[href*="list1pview"]\<close>\<close>
  | SelMainNext
      \<comment> \<open>the selector list of \<open>handleSearchPage\<close>: the links that contain \<open>Next\<close> or the
          quotation mark, and \<open>.pagination a:last-child\<close>\<close>
  | SelLinksButtons     \<comment> \<open>\<open>a, button\<close>\<close>

record page_dom =
  dom_query :: "selector \<Rightarrow> anchor list"   \<comment> \<open>\<open>$(selector)\<close>, in document order\<close>
  dom_pagination :: pagination_dom           \<comment> \<open>what \<open>parsePaginationInfo\<close> reads\<close>
  dom_rows :: "row list"                     \<comment> \<open>\<open>$('table.searchlist tbody tr')\<close>\<close>
  dom_bodyText :: string                     \<comment> \<open>\<open>$('body').text()\<close>\<close>

record 'u url_lib =
  url_parse :: "string \<Rightarrow> 'u option"
    \<comment> \<open>\<open>new URL(s)\<close>; \<open>None\<close> when it throws\<close>
  url_resolve :: "string \<Rightarrow> string \<Rightarrow> string option"
    \<comment> \<open>\<open>new URL(href, base).href\<close>; \<open>None\<close> when it throws\<close>
  url_get :: "'u \<Rightarrow> string \<Rightarrow> string option"
    \<comment> \<open>\<open>u.searchParams.get(name)\<close>\<close>
  url_set :: "'u \<Rightarrow> string \<Rightarrow> string \<Rightarrow> 'u"
    \<comment> \<open>\<open>u.searchParams.set(name, value)\<close>\<close>
  url_toString :: "'u \<Rightarrow> string"
    \<comment> \<open>\<open>u.toString()\<close>\<close>

definition profileRequest :: "int option \<Rightarrow> string option \<Rightarrow> listing_stub \<Rightarrow> request" where
  \<comment> \<open>the request that both handlers add for a stub; it states no \<open>uniqueKey\<close>\<close>
  "profileRequest sid sname specialist =
     \<lparr>rq_url = ls_profileUrl specialist, rq_uniqueKey = None,
      rq_userData = \<lparr>ud_label = ''PROFILE'', ud_nsrNo = Some (ls_nsrNo specialist),
                     ud_stateId = sid, ud_stateName = sname, ud_page = None\<rparr>\<rparr>"

definition searchRequest :: "string \<Rightarrow> int \<Rightarrow> string \<Rightarrow> int \<Rightarrow> request" where
  "searchRequest absoluteUrl sid sname pg =
     \<lparr>rq_url = absoluteUrl,
      rq_uniqueKey = Some (''SEARCH-'' @ intToString sid @ ''-'' @ intToString pg),
      rq_userData = \<lparr>ud_label = ''SEARCH'', ud_nsrNo = None, ud_stateId = Some sid,
                     ud_stateName = Some sname, ud_page = Some pg\<rparr>\<rparr>"

definition nextPageRequests ::
  "'u url_lib \<Rightarrow> page_dom \<Rightarrow> int \<Rightarrow> string \<Rightarrow> string \<Rightarrow> int \<Rightarrow> request list"
where
  \<comment> \<open>the \<open>try\<close> block of \<open>handleSearchPage\<close>; an exception of \<open>new URL\<close> is caught and
      leaves no request\<close>
  "nextPageRequests lib doc sid sname requestUrl pg =
     (if pi_hasNext (parsePaginationInfo (dom_pagination doc))
      then (let next = filter (\<lambda>a. \<not> a_classDisabled a) (dom_query doc SelMainNext)
            in if 0 < length next
               then (case selHref next of
                       None \<Rightarrow> []
                     | Some nextPageUrl \<Rightarrow>
                         if nextPageUrl \<noteq> []
                         then (case url_resolve lib nextPageUrl requestUrl of
                                 None \<Rightarrow> []
                               | Some absoluteUrl \<Rightarrow>
                                   [searchRequest absoluteUrl sid sname (pg + 1)])
                         else [])
               else [])
      else [])"

definition handleSearchPage ::
  "'u url_lib \<Rightarrow> page_dom \<Rightarrow> int \<Rightarrow> string \<Rightarrow> string \<Rightarrow> int \<Rightarrow> request list"
where
  \<comment> \<open>main.js. The result is the requests given to \<open>crawler.addRequests\<close>, in order.\<close>
  "handleSearchPage lib doc sid sname requestUrl pg =
     (if \<not> hasResults (dom_rows doc) (dom_bodyText doc) then []
      else map (profileRequest (Some sid) (Some sname)) (parseListingPage (dom_rows doc))
           @ nextPageRequests lib doc sid sname requestUrl pg)"

section \<open>The crawler with the pagination engine\<close>

definition isValidNextPageUrl :: "'u url_lib \<Rightarrow> string \<Rightarrow> string \<Rightarrow> int \<Rightarrow> bool" where
  \<comment> \<open>an exception of \<open>new URL\<close> is caught and gives \<open>false\<close>\<close>
  "isValidNextPageUrl lib url currentUrl currentPage =
     (case url_parse lib url of
        None \<Rightarrow> False
      | Some urlObj \<Rightarrow>
          (let pageParam = url_get lib urlObj ''page'' in
           if truthy pageParam
              \<and> (numGe (parseInt (orElse pageParam [])) 1000
                   \<or> numLe (parseInt (orElse pageParam [])) currentPage)
           then False
           else if url = currentUrl then False
           else (case url_parse lib currentUrl of
                   None \<Rightarrow> False
                 | Some currentUrlObj \<Rightarrow>
                     (let currentStateFilter = url_get lib currentUrlObj ''state_ForSearch'';
                          nextStateFilter = url_get lib urlObj ''state_ForSearch''
                      in if truthy currentStateFilter \<and> nextStateFilter \<noteq> currentStateFilter
                         then False
                         else True))))"

definition nextSelectors :: "selector list" where
  "nextSelectors = [SelNext, SelRsaquo, SelGtGt, SelGt, SelClassNext, SelPaginationLast]"

definition notDisabled :: "anchor list \<Rightarrow> anchor list" where
  \<comment> \<open>\<open>.not('.disabled, [disabled]')\<close>\<close>
  "notDisabled sel = filter (\<lambda>a. \<not> (a_classDisabled a \<or> a_attrDisabled a)) sel"

definition nextLinkCandidate ::
  "'u url_lib \<Rightarrow> anchor list \<Rightarrow> string \<Rightarrow> int \<Rightarrow> string option"
where
  \<comment> \<open>the body of the loop of strategy 1 for one selection; \<open>None\<close> when the loop
      goes on to the next selector\<close>
  "nextLinkCandidate lib next currentUrl currentPage =
     (if 0 < length next
      then (case selHref next of
              None \<Rightarrow> None
            | Some href \<Rightarrow>
                if href \<noteq> [] \<and> \<not> strIncludes href ''javascript:'' \<and> \<not> strIncludes href ''#''
                then (case url_resolve lib href currentUrl of
                        None \<Rightarrow> None
                      | Some absoluteUrl \<Rightarrow>
                          if isValidNextPageUrl lib absoluteUrl currentUrl currentPage
                          then (case url_parse lib absoluteUrl of
                                  None \<Rightarrow> None
                                | Some nextUrlObj \<Rightarrow>
                                    (let nextPageParam = url_get lib nextUrlObj ''page'' in
                                     if \<not> truthy nextPageParam
                                        \<or> numGt (parseInt (orElse nextPageParam [])) currentPage
                                     then Some absoluteUrl
                                     else None))
                          else None)
                else None)
      else None)"

fun nextLinkStrategy ::
  "'u url_lib \<Rightarrow> page_dom \<Rightarrow> string \<Rightarrow> int \<Rightarrow> selector list \<Rightarrow> string option"
where
  \<comment> \<open>strategy 1: the loop over the selectors, left at the first candidate returned\<close>
  "nextLinkStrategy lib doc currentUrl currentPage [] = None"
| "nextLinkStrategy lib doc currentUrl currentPage (sel # sels) =
     (case nextLinkCandidate lib (notDisabled (dom_query doc sel)) currentUrl currentPage of
        Some u \<Rightarrow> Some u
      | None \<Rightarrow> nextLinkStrategy lib doc currentUrl currentPage sels)"

definition pageLinkStep ::
  "'u url_lib \<Rightarrow> string \<Rightarrow> int \<Rightarrow> (int \<times> string) list \<Rightarrow> anchor \<Rightarrow> (int \<times> string) list"
where
  \<comment> \<open>the callback of \<open>each\<close> in strategy 2; the pairs are \<open>{page, url}\<close>\<close>
  "pageLinkStep lib currentUrl currentPage pageLinks el =
     (case a_href el of
        None \<Rightarrow> pageLinks
      | Some href \<Rightarrow>
          if href = [] \<or> strIncludes href ''javascript:'' then pageLinks
          else (case url_resolve lib href currentUrl of
                  None \<Rightarrow> pageLinks
                | Some absoluteUrl \<Rightarrow>
                    if \<not> isValidNextPageUrl lib absoluteUrl currentUrl currentPage then pageLinks
                    else (case url_parse lib absoluteUrl of
                            None \<Rightarrow> pageLinks
                          | Some urlObj \<Rightarrow>
                              (let pageParam = url_get lib urlObj ''page'' in
                               if truthy pageParam
                               then (case parseInt (orElse pageParam []) of
                                       NaN \<Rightarrow> pageLinks
                                     | Num pageNum \<Rightarrow>
                                         if currentPage < pageNum \<and> pageNum < 1000
                                         then pageLinks @ [(pageNum, absoluteUrl)]
                                         else pageLinks)
                               else (case parseInt (trim (a_text el)) of
                                       NaN \<Rightarrow> pageLinks
                                     | Num textPageNum \<Rightarrow>
                                         if currentPage < textPageNum \<and> textPageNum < 1000
                                         then pageLinks @ [(textPageNum, absoluteUrl)]
                                         else pageLinks)))))"

definition pageLinkStrategy :: "'u url_lib \<Rightarrow> page_dom \<Rightarrow> string \<Rightarrow> int \<Rightarrow> string option" where
  \<comment> \<open>strategy 2; the sort by page is stable\<close>
  "pageLinkStrategy lib doc currentUrl currentPage =
     (let pageLinks = foldl (pageLinkStep lib currentUrl currentPage) []
                            (dom_query doc SelPageLinks)
      in case sort_key fst pageLinks of
           [] \<Rightarrow> None
         | l # _ \<Rightarrow> Some (snd l))"

definition constructedStrategy ::
  "'u url_lib \<Rightarrow> pagination_dom \<Rightarrow> string \<Rightarrow> int \<Rightarrow> string option"
where
  \<comment> \<open>strategies 3 and 4\<close>
  "constructedStrategy lib pg currentUrl currentPage =
     (let paginationInfo = parsePaginationInfo pg;
          hasNextPage = (pi_hasNext paginationInfo
                         \<and> pi_currentPage paginationInfo < pi_totalPages paginationInfo)
      in if \<not> hasNextPage then None
         else (case url_parse lib currentUrl of
                 None \<Rightarrow> None
               | Some currentUrlObj \<Rightarrow>
                   (let nextPage = currentPage + 1 in
                    if 1000 \<le> nextPage then None
                    else (let nextUrl = url_toString lib
                                (url_set lib currentUrlObj ''page'' (intToString nextPage))
                          in if isValidNextPageUrl lib nextUrl currentUrl currentPage
                             then Some nextUrl
                             else None))))"

definition findNextPageUrl ::
  "'u url_lib \<Rightarrow> page_dom \<Rightarrow> string \<Rightarrow> int \<Rightarrow> pagination_dom option \<Rightarrow> string option"
where
  \<comment> \<open>the last argument is \<open>html\<close>, given as what \<open>parsePaginationInfo\<close> reads in it;
      \<open>None\<close> when \<open>html\<close> is null or empty, and then the document itself is read\<close>
  "findNextPageUrl lib doc currentUrl currentPage html =
     (case nextLinkStrategy lib doc currentUrl currentPage nextSelectors of
        Some u \<Rightarrow> Some u
      | None \<Rightarrow>
          (case pageLinkStrategy lib doc currentUrl currentPage of
             Some u \<Rightarrow> Some u
           | None \<Rightarrow>
               constructedStrategy lib
                 (case html of Some h \<Rightarrow> h | None \<Rightarrow> dom_pagination doc)
                 currentUrl currentPage))"

definition handleListPage ::
  "page_dom \<Rightarrow> int option \<Rightarrow> string option \<Rightarrow> string \<Rightarrow> request list"
where
  \<comment> \<open>The result is the requests given to \<open>crawler.addRequests\<close>, in order. Neither
      branch on \<open>isFullCrawl\<close> adds a request: they only log.\<close>
  "handleListPage doc sid sname label =
     (if \<not> hasResults (dom_rows doc) (dom_bodyText doc) then []
      else map (profileRequest sid sname) (parseListingPage (dom_rows doc)))"

subsection \<open>The invariant of the page links collected by strategy 2\<close>

definition linkOk :: "'u url_lib \<Rightarrow> string \<Rightarrow> int \<Rightarrow> int \<times> string \<Rightarrow> bool" where
  \<comment> \<open>a pair \<open>{page, url}\<close> whose URL passed the guard and whose page lies between the
      current page and 1000\<close>
  "linkOk lib currentUrl currentPage l =
     (isValidNextPageUrl lib (snd l) currentUrl currentPage \<and> currentPage < fst l \<and> fst l < 1000)"


subsection \<open>The request queue\<close>




section \<open>test-form-post.js: the page walk of the test script\<close>








section \<open>The crawl of the listing pages of one target\<close>






section \<open>Example documents\<close>

definition exCell :: "string \<Rightarrow> cell" where
  "exCell t = \<lparr>c_text = t, c_links = []\<rparr>"

definition exRow :: "string \<Rightarrow> row" where
  \<comment> \<open>a data row of six cells whose first cell holds the given id\<close>
  "exRow i = \<lparr>r_tableHeading = False,
              r_cells = [exCell i, exCell ''Dr'', exCell ''A'', exCell ''Male'',
                         exCell ''Johor'', exCell ''Surgery'']\<rparr>"

definition exHeader :: row where
  "exHeader = \<lparr>r_tableHeading = True,
               r_cells = [exCell ''NSR No'', exCell ''Title'', exCell ''Name'', exCell ''Gender'',
                          exCell ''Location'', exCell ''Specialty'']\<rparr>"

definition exShort :: row where
  \<comment> \<open>a row of two cells\<close>
  "exShort = \<lparr>r_tableHeading = False, r_cells = [exCell ''100009'', exCell ''Dr'']\<rparr>"

definition exProfileDom :: profile_dom where
  \<comment> \<open>a detail page whose personal-data table states another id than the one asked for\<close>
  "exProfileDom =
     \<lparr>pd_tables = [\<lparr>pt_text = ''Personal Data NSR No 654321 Name Dr A'',
                     pt_rows = [[''Personal Data''], [''NSR No'', ''654321''],
                                [''Name'', ''Dr A'']]\<rparr>],
      pd_nameElements = [], pd_specialtyElements = [], pd_dls = []\<rparr>"


subsection \<open>A URL library for the examples\<close>

text \<open>
  The examples need the built-in \<open>URL\<close> on concrete strings. \<open>simpleUrlLib\<close> reads an
  absolute \<open>http\<close> or \<open>https\<close> URL without fragment and without escapes as the text
  before the first question mark and the list of the \<open>key=value\<close> pairs after it, and
  resolves a relative reference that is a file name with a query against the directory
  of the base. On such strings it computes what \<open>URL\<close> computes.
\<close>

fun splitAtChar :: "char \<Rightarrow> string \<Rightarrow> string \<Rightarrow> string list" where
  "splitAtChar sep cur [] = [cur]"
| "splitAtChar sep cur (c # cs) =
     (if c = sep then cur # splitAtChar sep [] cs else splitAtChar sep (cur @ [c]) cs)"

definition simpleQuery :: "string \<Rightarrow> (string \<times> string) list" where
  "simpleQuery q =
     map (\<lambda>kv. (takeWhile (\<lambda>c. c \<noteq> CHR ''='') kv, drop 1 (dropWhile (\<lambda>c. c \<noteq> CHR ''='') kv)))
         (filter (\<lambda>kv. kv \<noteq> []) (splitAtChar CHR ''&'' [] q))"

definition isAbsolute :: "string \<Rightarrow> bool" where
  "isAbsolute s = (startsWith s ''https://'' \<or> startsWith s ''http://'')"

definition simpleParse :: "string \<Rightarrow> (string \<times> (string \<times> string) list) option" where
  "simpleParse s =
     (if isAbsolute s
      then Some (takeWhile (\<lambda>c. c \<noteq> CHR ''?'') s,
                 simpleQuery (drop 1 (dropWhile (\<lambda>c. c \<noteq> CHR ''?'') s)))
      else None)"

definition simpleResolve :: "string \<Rightarrow> string \<Rightarrow> string option" where
  "simpleResolve r base =
     (if isAbsolute r then Some r
      else if isAbsolute base
      then (let path = takeWhile (\<lambda>c. c \<noteq> CHR ''?'') base
            in if startsWith r ''?'' then Some (path @ r)
               else Some (rev (dropWhile (\<lambda>c. c \<noteq> CHR ''/'') (rev path)) @ r))
      else None)"

fun setParam :: "string \<Rightarrow> string \<Rightarrow> (string \<times> string) list \<Rightarrow> (string \<times> string) list" where
  "setParam k v [] = [(k, v)]"
| "setParam k v (kv # kvs) =
     (if fst kv = k then (k, v) # filter (\<lambda>x. fst x \<noteq> k) kvs else kv # setParam k v kvs)"

fun joinParams :: "(string \<times> string) list \<Rightarrow> string" where
  "joinParams [] = []"
| "joinParams [kv] = fst kv @ ''='' @ snd kv"
| "joinParams (kv # kvs) = fst kv @ ''='' @ snd kv @ ''&'' @ joinParams kvs"

definition simpleUrlLib :: "(string \<times> (string \<times> string) list) url_lib" where
  "simpleUrlLib =
     \<lparr>url_parse = simpleParse,
      url_resolve = simpleResolve,
      url_get = (\<lambda>u k. map_of (snd u) k),
      url_set = (\<lambda>u k v. (fst u, setParam k v (snd u))),
      url_toString = (\<lambda>u. fst u @ (if snd u = [] then [] else ''?'' @ joinParams (snd u)))\<rparr>"

subsection \<open>Listing pages\<close>

definition exLink :: "string \<Rightarrow> string \<Rightarrow> anchor" where
  "exLink t h = \<lparr>a_href = Some h, a_text = t, a_classDisabled = False, a_attrDisabled = False\<rparr>"

definition noPagination :: pagination_dom where
  "noPagination = \<lparr>pg_containers = 0, pg_active = [], pg_links = [], pg_next = []\<rparr>"

definition exTwoRows :: "row list" where
  "exTwoRows = [exHeader, exRow ''100001'', exRow ''100002'']"

definition exDocNext :: page_dom where
  \<comment> \<open>two result rows and, outside any pagination container, the link
      \<open><a href="list1pview.asp?page=2">Next</a>\<close>\<close>
  "exDocNext =
     \<lparr>dom_query = (\<lambda>sel. if sel \<in> {SelNext, SelPageLinks, SelMainNext, SelLinksButtons}
                           then [exLink ''Next'' ''list1pview.asp?page=2''] else []),
      dom_pagination = noPagination,
      dom_rows = exTwoRows,
      dom_bodyText = ''Next''\<rparr>"

definition exDocNextFiltered :: page_dom where
  \<comment> \<open>as before, with the link \<open><a href="list1pview.asp?state_ForSearch=1&page=2">Next</a>\<close>\<close>
  "exDocNextFiltered =
     \<lparr>dom_query = (\<lambda>sel. if sel \<in> {SelNext, SelPageLinks, SelMainNext, SelLinksButtons}
                           then [exLink ''Next'' ''list1pview.asp?state_ForSearch=1&page=2'']
                           else []),
      dom_pagination = noPagination,
      dom_rows = exTwoRows,
      dom_bodyText = ''Next''\<rparr>"




definition exDocNext1006 :: page_dom where
  \<comment> \<open>two result rows and the only link \<open><a href="list1pview.asp?page=1006">Next</a>\<close>
      inside \<open><div class="pagination">\<close>\<close>
  "exDocNext1006 =
     \<lparr>dom_query = (\<lambda>sel. if sel \<in> {SelNext, SelPaginationLast, SelPageLinks, SelMainNext,
                                      SelLinksButtons}
                           then [exLink ''Next'' ''list1pview.asp?page=1006''] else []),
      dom_pagination = \<lparr>pg_containers = 1, pg_active = [], pg_links = [''Next''],
                         pg_next = [False]\<rparr>,
      dom_rows = exTwoRows,
      dom_bodyText = ''Next''\<rparr>"




definition exInput :: "string option \<Rightarrow> form_elem" where
  \<comment> \<open>\<open><input name="specialistName" value="abc">\<close> with the given \<open>type\<close> attribute\<close>
  "exInput ty =
     \<lparr>fe_name = Some ''specialistName'', fe_type = ty, fe_tagName = ''INPUT'',
      fe_value = Some ''abc'', fe_checked = False, fe_selected = [], fe_options = []\<rparr>"


section \<open>Verified properties\<close>

subsection \<open>Field normalizers\<close>

text \<open>
  C9. The id validity check holds exactly when the digits of the id, taken out in order,
  are six or more: \<open>12345\<close> is invalid, \<open>123456\<close> and \<open>NSR 004821\<close> are valid, and a null
  or an empty id is invalid.
\<close>

theorem isValidNsrNumber_iff_six_digits:
  "isValidNsrNumber (Some s) = (6 \<le> length (filter isDigit s))
   \<and> isValidNsrNumber None = False
   \<and> isValidNsrNumber (Some []) = False
   \<and> isValidNsrNumber (Some ''12345'') = False
   \<and> isValidNsrNumber (Some ''123456'') = True
   \<and> isValidNsrNumber (Some ''NSR 004821'') = True"
proof -
  have general: "isValidNsrNumber (Some s) = (6 \<le> length (filter isDigit s))"
    by (cases s) (simp_all add: isValidNsrNumber_def)
  have ex1: "isValidNsrNumber (Some ''12345'') = False" by code_simp
  have ex2: "isValidNsrNumber (Some ''123456'') = True" by code_simp
  have ex3: "isValidNsrNumber (Some ''NSR 004821'') = True" by code_simp
  show ?thesis
    using general ex1 ex2 ex3 by (simp add: isValidNsrNumber_def)
qed

lemma extractCity_not_state: "extractCityFromAddress a = Some c \<Longrightarrow> \<not> stateTest c"
  by (auto simp: extractCityFromAddress_def Let_def split: option.splits if_splits)

lemma stateTest_johor_bahru: "stateTest ''Johor Bahru''"
  by code_simp

text \<open>
  C6. On the address \<open>12 Jalan Example, Johor Bahru, Johor 80100\<close> the region is Johor,
  of category regular, but no city is derived: the second-to-last part \<open>Johor Bahru\<close>
  itself matches the region-name pattern, which is searched anywhere in the part. The
  same happens on the address of the sample record of the README, and no address at all
  gives the city \<open>Johor Bahru\<close>.
\<close>

theorem extractCity_johor_bahru_is_null:
  "extractStateFromAddress (Some ''12 Jalan Example, Johor Bahru, Johor 80100'')
     = \<lparr>sr_stateId = 1, sr_stateName = ''Johor'', sr_stateCategory = ''regular''\<rparr>
   \<and> extractCityFromAddress (Some ''12 Jalan Example, Johor Bahru, Johor 80100'') = None
   \<and> extractCityFromAddress (Some
        ''Hospital Sultanah Aminah, Jalan Persiaran Abu Bakar Sultan, 80100 Johor Bahru, Johor'')
       = None
   \<and> extractCityFromAddress a \<noteq> Some ''Johor Bahru''"
proof -
  have st: "extractStateFromAddress (Some ''12 Jalan Example, Johor Bahru, Johor 80100'')
     = \<lparr>sr_stateId = 1, sr_stateName = ''Johor'', sr_stateCategory = ''regular''\<rparr>"
    by code_simp
  have c1: "extractCityFromAddress (Some ''12 Jalan Example, Johor Bahru, Johor 80100'') = None"
    by code_simp
  have c2: "extractCityFromAddress (Some
        ''Hospital Sultanah Aminah, Jalan Persiaran Abu Bakar Sultan, 80100 Johor Bahru, Johor'')
       = None"
    by code_simp
  have c3: "extractCityFromAddress a \<noteq> Some ''Johor Bahru''"
    using extractCity_not_state stateTest_johor_bahru by blast
  show ?thesis using st c1 c2 c3 by blast
qed

subsection \<open>Listing parser\<close>

lemma parseListingPage_acc:
  "foldl (\<lambda>specialists r. case parseListingRow r of None \<Rightarrow> specialists | Some s \<Rightarrow> specialists @ [s]) acc rows
     = acc @ List.map_filter parseListingRow rows"
  by (induction rows arbitrary: acc) (auto simp: List.map_filter_simps split: option.splits)

lemma parseListingPage_map_filter:
  "parseListingPage rows = List.map_filter parseListingRow rows"
  by (simp add: parseListingPage_def parseListingPage_acc)

lemma parseListingRow_valid:
  "parseListingRow r = Some s \<Longrightarrow> isValidNsrNumber (Some (ls_nsrNo s))"
  by (auto simp: parseListingRow_def Let_def split: if_splits)

lemma parseListingRow_None_iff:
  "parseListingRow r = None \<longleftrightarrow>
     (r_tableHeading r \<or> length (r_cells r) < 6 \<or> \<not> isValidNsrNumber (Some (cleanText (c_text (r_cells r ! 0)))))"
  by (auto simp: parseListingRow_def Let_def split: if_splits)

lemma parseListingRow_nsrNo:
  "parseListingRow r = Some s \<Longrightarrow> ls_nsrNo s = cleanText (c_text (r_cells r ! 0))"
  by (auto simp: parseListingRow_def Let_def split: if_splits)

text \<open>
  C8. On a listing table with one header row and three valid data rows the parser returns
  three stubs, those of the three rows in their order, each carrying the cleaned text of
  the row's first cell as id. A row that is tagged as a header, has fewer than six cells
  or has an invalid id is skipped and the other rows are parsed as without it. Every stub
  returned carries a valid id.
\<close>

theorem parseListingPage_rows:
  assumes "r_tableHeading h"
    and "\<forall>r \<in> {r1, r2, r3}. \<not> r_tableHeading r \<and> 6 \<le> length (r_cells r)
           \<and> isValidNsrNumber (Some (cleanText (c_text (r_cells r ! 0))))"
    and "r_tableHeading bad \<or> length (r_cells bad) < 6
           \<or> \<not> isValidNsrNumber (Some (cleanText (c_text (r_cells bad ! 0))))"
  shows "length (parseListingPage [h, r1, r2, r3]) = 3
     \<and> map Some (parseListingPage [h, r1, r2, r3]) = map parseListingRow [r1, r2, r3]
     \<and> map ls_nsrNo (parseListingPage [h, r1, r2, r3])
         = map (\<lambda>r. cleanText (c_text (r_cells r ! 0))) [r1, r2, r3]
     \<and> parseListingPage (xs @ bad # ys) = parseListingPage (xs @ ys)
     \<and> (\<forall>s \<in> set (parseListingPage rows). isValidNsrNumber (Some (ls_nsrNo s)))"
proof -
  have h: "parseListingRow h = None"
    using assms(1) by (simp add: parseListingRow_None_iff)
  have bad: "parseListingRow bad = None"
    using assms(3) by (simp add: parseListingRow_None_iff)
  have ex: "parseListingRow r \<noteq> None"
    if "\<not> r_tableHeading r \<and> 6 \<le> length (r_cells r)
           \<and> isValidNsrNumber (Some (cleanText (c_text (r_cells r ! 0))))" for r
    using that by (simp add: parseListingRow_None_iff)
  have "parseListingRow r1 \<noteq> None" "parseListingRow r2 \<noteq> None" "parseListingRow r3 \<noteq> None"
    using assms(2) by (simp_all add: parseListingRow_None_iff)
  then obtain s1 s2 s3 where s: "parseListingRow r1 = Some s1" "parseListingRow r2 = Some s2"
      "parseListingRow r3 = Some s3"
    by blast
  have page: "parseListingPage [h, r1, r2, r3] = [s1, s2, s3]"
    by (simp add: parseListingPage_map_filter List.map_filter_simps h s)
  have skip: "parseListingPage (xs @ bad # ys) = parseListingPage (xs @ ys)"
    by (simp add: parseListingPage_map_filter List.map_filter_def bad)
  have valid: "\<forall>s \<in> set (parseListingPage rows). isValidNsrNumber (Some (ls_nsrNo s))"
    by (auto simp: parseListingPage_map_filter List.map_filter_def dest: parseListingRow_valid)
  show ?thesis
    using page s skip valid by (simp add: parseListingRow_nsrNo)
qed


theorem parseListingPage_rows_witness:
  "r_tableHeading exHeader
   \<and> isValidNsrNumber (Some (cleanText ''100001''))
   \<and> isValidNsrNumber (Some (cleanText '' 100002 ''))
   \<and> isValidNsrNumber (Some (cleanText ''NSR 100003''))
   \<and> length (r_cells exShort) < 6
   \<and> length (parseListingPage
         [exHeader, exRow ''100001'', exRow '' 100002 '', exRow ''NSR 100003'']) = 3
   \<and> map ls_nsrNo (parseListingPage
         [exHeader, exRow ''100001'', exRow '' 100002 '', exRow ''NSR 100003''])
       = [''100001'', ''100002'', ''NSR 100003'']
   \<and> parseListingPage ([exHeader, exRow ''100001''] @ exShort # [exRow ''NSR 100003''])
       = parseListingPage ([exHeader, exRow ''100001''] @ [exRow ''NSR 100003''])"
proof -
  have h1: "r_tableHeading exHeader"
    by (simp add: exHeader_def)
  have v1: "isValidNsrNumber (Some (cleanText ''100001''))" by code_simp
  have v2: "isValidNsrNumber (Some (cleanText '' 100002 ''))" by code_simp
  have v3: "isValidNsrNumber (Some (cleanText ''NSR 100003''))" by code_simp
  have h2: "\<forall>r \<in> {exRow ''100001'', exRow '' 100002 '', exRow ''NSR 100003''}.
         \<not> r_tableHeading r \<and> 6 \<le> length (r_cells r)
         \<and> isValidNsrNumber (Some (cleanText (c_text (r_cells r ! 0))))"
    using v1 v2 v3 by (simp add: exRow_def exCell_def)
  have s: "length (r_cells exShort) < 6"
    by (simp add: exShort_def)
  then have h3: "r_tableHeading exShort \<or> length (r_cells exShort) < 6
           \<or> \<not> isValidNsrNumber (Some (cleanText (c_text (r_cells exShort ! 0))))"
    by simp
  have c1: "cleanText ''100001'' = ''100001''" by code_simp
  have c2: "cleanText '' 100002 '' = ''100002''" by code_simp
  have c3: "cleanText ''NSR 100003'' = ''NSR 100003''" by code_simp
  have ids: "map (\<lambda>r. cleanText (c_text (r_cells r ! 0)))
               [exRow ''100001'', exRow '' 100002 '', exRow ''NSR 100003'']
             = [''100001'', ''100002'', ''NSR 100003'']"
    using c1 c2 c3 by (simp add: exRow_def exCell_def)
  note t = parseListingPage_rows [OF h1 h2 h3, of "[exHeader, exRow ''100001'']"
            "[exRow ''NSR 100003'']" "[]"]
  have a: "length (parseListingPage
         [exHeader, exRow ''100001'', exRow '' 100002 '', exRow ''NSR 100003'']) = 3"
    by (rule t [THEN conjunct1])
  have c: "map ls_nsrNo (parseListingPage
         [exHeader, exRow ''100001'', exRow '' 100002 '', exRow ''NSR 100003''])
       = [''100001'', ''100002'', ''NSR 100003'']"
    using t [THEN conjunct2, THEN conjunct2, THEN conjunct1] unfolding ids .
  have d: "parseListingPage ([exHeader, exRow ''100001''] @ exShort # [exRow ''NSR 100003''])
       = parseListingPage ([exHeader, exRow ''100001''] @ [exRow ''NSR 100003''])"
    by (rule t [THEN conjunct2, THEN conjunct2, THEN conjunct2, THEN conjunct1])
  show ?thesis
    by (intro conjI) (rule h1 v1 v2 v3 s a c d)+
qed

subsection \<open>Profile parser\<close>

lemma setAddress_profileUrl: "sp_profileUrl (setAddress sp v) = sp_profileUrl sp"
  by (simp add: setAddress_def Let_def)

lemma qualificationRow_profileUrl: "sp_profileUrl (qualificationRow sp cells) = sp_profileUrl sp"
  by (simp add: qualificationRow_def Let_def)

lemma labelRow_profileUrl: "sp_profileUrl (labelRow dateLib nsrNo sec sp cells) = sp_profileUrl sp"
  by (simp add: labelRow_def Let_def setAddress_profileUrl)

lemma profileRow_profileUrl: "sp_profileUrl (profileRow dateLib nsrNo sec sp cells) = sp_profileUrl sp"
  by (simp add: profileRow_def qualificationRow_profileUrl labelRow_profileUrl)

lemma profileRows_profileUrl:
  "sp_profileUrl (foldl (profileRow dateLib nsrNo sec) sp rows) = sp_profileUrl sp"
  by (induction rows arbitrary: sp) (simp_all add: profileRow_profileUrl)

lemma profileTable_profileUrl:
  "sp_profileUrl (snd (profileTable dateLib nsrNo st t)) = sp_profileUrl (snd st)"
  by (simp add: profileTable_def Let_def profileRows_profileUrl)

lemma profileTables_profileUrl:
  "sp_profileUrl (snd (foldl (profileTable dateLib nsrNo) st ts)) = sp_profileUrl (snd st)"
  by (induction ts arbitrary: st) (simp_all add: profileTable_profileUrl)

lemma nameFallback_profileUrl: "sp_profileUrl (nameFallback d sp) = sp_profileUrl sp"
  by (simp add: nameFallback_def)

lemma specialtyFallback_profileUrl: "sp_profileUrl (specialtyFallback d sp) = sp_profileUrl sp"
  by (simp add: specialtyFallback_def)

lemma dlPair_profileUrl: "sp_profileUrl (dlPair sp lv) = sp_profileUrl sp"
  by (simp add: dlPair_def Let_def setAddress_profileUrl)

lemma dlPairs_profileUrl: "sp_profileUrl (foldl dlPair sp lvs) = sp_profileUrl sp"
  by (induction lvs arbitrary: sp) (simp_all add: dlPair_profileUrl)

lemma dlLists_profileUrl: "sp_profileUrl (foldl dlList sp dls) = sp_profileUrl sp"
  by (induction dls arbitrary: sp) (simp_all add: dlList_def dlPairs_profileUrl)

lemma stateFallback_profileUrl: "sp_profileUrl (stateFallback sp) = sp_profileUrl sp"
  by (simp add: stateFallback_def Let_def)

text \<open>
  C10. The record returned by the profile parser has as profile URL the canonical URL
  built from the id given to the parser, whatever the document holds. On a document whose
  \<open>NSR No\<close> row states the id 654321, parsed for the id 123456, the record has the id
  654321 and the profile URL of 123456, which is not the URL of 654321.
\<close>

theorem parseProfilePage_profileUrl_fixed:
  "sp_profileUrl (parseProfilePage dateLib d nsrNo) = buildProfileUrl nsrNo
   \<and> sp_nsrNo (parseProfilePage (\<lambda>_. None) exProfileDom ''123456'') = ''654321''
   \<and> sp_profileUrl (parseProfilePage (\<lambda>_. None) exProfileDom ''123456'') = buildProfileUrl ''123456''
   \<and> buildProfileUrl ''123456'' \<noteq> buildProfileUrl ''654321''"
proof -
  have general: "sp_profileUrl (parseProfilePage dateLib d nsrNo) = buildProfileUrl nsrNo" for dateLib d nsrNo
    by (simp add: parseProfilePage_def Let_def stateFallback_profileUrl dlLists_profileUrl
        specialtyFallback_profileUrl nameFallback_profileUrl profileTables_profileUrl
        initialSpecialist_def)
  have ex: "sp_nsrNo (parseProfilePage (\<lambda>_. None) exProfileDom ''123456'') = ''654321''"
    by code_simp
  have ne: "buildProfileUrl ''123456'' \<noteq> buildProfileUrl ''654321''"
    by (simp add: buildProfileUrl_def)
  show ?thesis using general ex ne by simp
qed


subsection \<open>Pagination discovery\<close>


lemma isValidNextPageUrl_parsed:
  assumes "isValidNextPageUrl lib url currentUrl currentPage"
  obtains urlObj currentUrlObj where
    "url_parse lib url = Some urlObj" "url_parse lib currentUrl = Some currentUrlObj"
    "url \<noteq> currentUrl"
    "\<not> (truthy (url_get lib urlObj ''page'')
        \<and> (numGe (parseInt (orElse (url_get lib urlObj ''page'') [])) 1000
             \<or> numLe (parseInt (orElse (url_get lib urlObj ''page'') [])) currentPage))"
    "\<not> (truthy (url_get lib currentUrlObj ''state_ForSearch'')
        \<and> url_get lib urlObj ''state_ForSearch'' \<noteq> url_get lib currentUrlObj ''state_ForSearch'')"
  using assms
  by (auto simp: isValidNextPageUrl_def Let_def split: option.splits if_splits)

lemma nextLinkCandidate_valid:
  "nextLinkCandidate lib next currentUrl currentPage = Some u
     \<Longrightarrow> isValidNextPageUrl lib u currentUrl currentPage"
  by (auto simp: nextLinkCandidate_def Let_def split: option.splits if_splits)

lemma nextLinkCandidate_page:
  assumes "nextLinkCandidate lib next currentUrl currentPage = Some u"
    and "url_parse lib u = Some urlObj"
  shows "\<not> truthy (url_get lib urlObj ''page'')
         \<or> numGt (parseInt (orElse (url_get lib urlObj ''page'') [])) currentPage"
  using assms
  by (auto simp: nextLinkCandidate_def Let_def split: option.splits if_splits)

lemma nextLinkStrategy_candidate:
  "nextLinkStrategy lib doc currentUrl currentPage sels = Some u
     \<Longrightarrow> \<exists>sel \<in> set sels.
           nextLinkCandidate lib (notDisabled (dom_query doc sel)) currentUrl currentPage = Some u"
  by (induction sels) (auto split: option.splits)

lemma pageLinkStep_ok:
  "\<forall>l \<in> set pageLinks. linkOk lib currentUrl currentPage l
     \<Longrightarrow> \<forall>l \<in> set (pageLinkStep lib currentUrl currentPage pageLinks el).
          linkOk lib currentUrl currentPage l"
  by (auto simp: pageLinkStep_def Let_def linkOk_def split: option.splits if_splits jsnum.splits)

lemma pageLinks_ok:
  "\<forall>l \<in> set pageLinks. linkOk lib currentUrl currentPage l
     \<Longrightarrow> \<forall>l \<in> set (foldl (pageLinkStep lib currentUrl currentPage) pageLinks els).
          linkOk lib currentUrl currentPage l"
proof (induction els arbitrary: pageLinks)
  case Nil
  then show ?case by simp
next
  case (Cons el els)
  from Cons.prems have "\<forall>l \<in> set (pageLinkStep lib currentUrl currentPage pageLinks el).
          linkOk lib currentUrl currentPage l"
    by (rule pageLinkStep_ok)
  then show ?case using Cons.IH by simp
qed

lemma pageLinkStrategy_ok:
  assumes "pageLinkStrategy lib doc currentUrl currentPage = Some u"
  shows "\<exists>n. linkOk lib currentUrl currentPage (n, u)"
proof -
  let ?links = "foldl (pageLinkStep lib currentUrl currentPage) [] (dom_query doc SelPageLinks)"
  from assms obtain l ls where s: "sort_key fst ?links = l # ls" and u: "u = snd l"
    by (auto simp: pageLinkStrategy_def Let_def split: list.splits)
  have "l \<in> set (sort_key fst ?links)" using s by simp
  then have "l \<in> set ?links" by simp
  moreover have "\<forall>l \<in> set ?links. linkOk lib currentUrl currentPage l"
    by (rule pageLinks_ok) simp
  ultimately have "linkOk lib currentUrl currentPage l" by blast
  then show ?thesis using u by (cases l) auto
qed

lemma constructedStrategy_valid:
  "constructedStrategy lib pg currentUrl currentPage = Some u
     \<Longrightarrow> isValidNextPageUrl lib u currentUrl currentPage \<and> currentPage + 1 < 1000"
  by (auto simp: constructedStrategy_def Let_def split: option.splits if_splits)

lemma findNextPageUrl_cases:
  assumes "findNextPageUrl lib doc currentUrl currentPage html = Some u"
  shows "(\<exists>sel \<in> set nextSelectors.
            nextLinkCandidate lib (notDisabled (dom_query doc sel)) currentUrl currentPage = Some u)
         \<or> (\<exists>n. linkOk lib currentUrl currentPage (n, u))
         \<or> (isValidNextPageUrl lib u currentUrl currentPage \<and> currentPage + 1 < 1000)"
  using assms nextLinkStrategy_candidate [of lib doc currentUrl currentPage nextSelectors u]
    pageLinkStrategy_ok [of lib doc currentUrl currentPage u]
    constructedStrategy_valid [of lib _ currentUrl currentPage u]
  by (auto simp: findNextPageUrl_def split: option.splits)

lemma findNextPageUrl_valid:
  assumes "findNextPageUrl lib doc currentUrl currentPage html = Some u"
  shows "isValidNextPageUrl lib u currentUrl currentPage"
  using findNextPageUrl_cases [OF assms] nextLinkCandidate_valid
  by (auto simp: linkOk_def)


lemma guard_filter:
  assumes "isValidNextPageUrl lib u currentUrl currentPage"
    and "url_parse lib currentUrl = Some currentUrlObj"
    and "url_get lib currentUrlObj ''state_ForSearch'' = Some v" and "v \<noteq> []"
  shows "\<exists>urlObj. url_parse lib u = Some urlObj \<and> url_get lib urlObj ''state_ForSearch'' = Some v"
  using assms(1)
  by (rule isValidNextPageUrl_parsed) (use assms(2-4) in \<open>auto simp: truthy_def\<close>)













text \<open>
  C3, amended. When the current URL carries the filter parameter \<open>state_ForSearch\<close> with
  a non-empty value, every candidate that pagination discovery returns carries the
  parameter with the same value.
\<close>

theorem findNextPageUrl_keeps_filter:
  assumes "findNextPageUrl lib doc currentUrl currentPage html = Some u"
    and "url_parse lib currentUrl = Some currentUrlObj"
    and "url_get lib currentUrlObj ''state_ForSearch'' = Some v"
    and "v \<noteq> []"
  shows "\<exists>urlObj. url_parse lib u = Some urlObj \<and> url_get lib urlObj ''state_ForSearch'' = Some v"
  using guard_filter [OF findNextPageUrl_valid [OF assms(1)] assms(2-4)] .


theorem findNextPageUrl_keeps_filter_witness:
  "findNextPageUrl simpleUrlLib exDocNextFiltered
       ''https://nsr.org.my/list1pview.asp?state_ForSearch=1'' 1 None
     = Some ''https://nsr.org.my/list1pview.asp?state_ForSearch=1&page=2''
   \<and> url_parse simpleUrlLib ''https://nsr.org.my/list1pview.asp?state_ForSearch=1''
     = Some (''https://nsr.org.my/list1pview.asp'', [(''state_ForSearch'', ''1'')])
   \<and> url_get simpleUrlLib (''https://nsr.org.my/list1pview.asp'', [(''state_ForSearch'', ''1'')])
         ''state_ForSearch'' = Some ''1''
   \<and> (\<exists>urlObj. url_parse simpleUrlLib
                  ''https://nsr.org.my/list1pview.asp?state_ForSearch=1&page=2'' = Some urlObj
               \<and> url_get simpleUrlLib urlObj ''state_ForSearch'' = Some ''1'')"
proof -
  let ?cur = "''https://nsr.org.my/list1pview.asp?state_ForSearch=1''"
  let ?next = "''https://nsr.org.my/list1pview.asp?state_ForSearch=1&page=2''"
  have f: "findNextPageUrl simpleUrlLib exDocNextFiltered ?cur 1 None = Some ?next"
    by code_simp
  have p: "url_parse simpleUrlLib ?cur
     = Some (''https://nsr.org.my/list1pview.asp'', [(''state_ForSearch'', ''1'')])"
    by code_simp
  have g: "url_get simpleUrlLib (''https://nsr.org.my/list1pview.asp'', [(''state_ForSearch'', ''1'')])
         ''state_ForSearch'' = Some ''1''"
    by code_simp
  have ne: "''1'' \<noteq> ([] :: string)" by simp
  note t = findNextPageUrl_keeps_filter [OF f p g ne]
  show ?thesis
    by (intro conjI) (rule f p g t)+
qed


text \<open>
  The claim C3 as stated fails when the filter parameter is present with an empty value:
  the guard takes an empty value for no filter, and a candidate without the parameter is
  returned.
\<close>

theorem findNextPageUrl_empty_filter_counterexample:
  "findNextPageUrl simpleUrlLib exDocNext ''https://nsr.org.my/list1pview.asp?state_ForSearch='' 1 None
     = Some ''https://nsr.org.my/list1pview.asp?page=2''
   \<and> url_parse simpleUrlLib ''https://nsr.org.my/list1pview.asp?state_ForSearch=''
     = Some (''https://nsr.org.my/list1pview.asp'', [(''state_ForSearch'', [])])
   \<and> url_get simpleUrlLib (''https://nsr.org.my/list1pview.asp'', [(''state_ForSearch'', [])])
         ''state_ForSearch'' = Some []
   \<and> url_parse simpleUrlLib ''https://nsr.org.my/list1pview.asp?page=2''
     = Some (''https://nsr.org.my/list1pview.asp'', [(''page'', ''2'')])
   \<and> url_get simpleUrlLib (''https://nsr.org.my/list1pview.asp'', [(''page'', ''2'')])
         ''state_ForSearch'' = None"
  by code_simp

subsection \<open>Form field extractor\<close>

text \<open>
  C7. The extractor takes an input whose \<open>type\<close> is \<open>hidden\<close> or that has no \<open>type\<close>
  attribute, but it leaves out a named text input whose \<open>type\<close> attribute is written out:
  \<open><input type="text" name="specialistName" value="abc">\<close> gives no field, while the
  same element without the attribute, or with \<open>type="hidden"\<close>, gives the field with the
  value \<open>abc\<close>.
\<close>

theorem extractFormFields_drops_typed_text_input:
  "extractFormFields [exInput (Some ''text'')] ''specialistName'' = None
   \<and> extractFormFields [exInput None] ''specialistName'' = Some ''abc''
   \<and> extractFormFields [exInput (Some ''hidden'')] ''specialistName'' = Some ''abc''"
proof -
  have l: "toLowerCase ''INPUT'' = ''input''"
    by code_simp
  show ?thesis
    by (simp add: extractFormFields_def formField_def exInput_def orElse_def l Let_def)
qed

subsection \<open>The listing handlers\<close>

lemma hasResults_iff: "hasResults rows bodyText = (\<exists>r \<in> set rows. \<not> r_tableHeading r)"
  by (auto simp: hasResults_def filter_empty_conv)

lemma no_results_no_stubs:
  "\<not> hasResults rows bodyText \<Longrightarrow> parseListingPage rows = []"
  by (auto simp: hasResults_iff parseListingPage_map_filter List.map_filter_def filter_empty_conv
      parseListingRow_None_iff)

lemma nextPageRequests_shape:
  "nextPageRequests lib doc sid sname requestUrl pg = []
   \<or> (\<exists>absoluteUrl. nextPageRequests lib doc sid sname requestUrl pg
         = [searchRequest absoluteUrl sid sname (pg + 1)])"
  by (auto simp: nextPageRequests_def Let_def split: option.splits)

text \<open>
  C4, amended. \<open>handleListPage\<close> emits one DETAIL task for each stub that the listing
  parser returns, in order, and no other task: it never consults pagination discovery.
  \<open>handleSearchPage\<close> of main.js emits nothing on a page without results, and otherwise
  the same DETAIL tasks followed by what its own next-link test yields, which is at most
  one LISTING task, for the next page index.
\<close>

theorem listing_handlers_emit:
  "handleListPage doc sid sname label
     = map (profileRequest sid sname) (parseListingPage (dom_rows doc))
   \<and> list_all (\<lambda>rq. ud_label (rq_userData rq) = ''PROFILE'') (handleListPage doc sid sname label)
   \<and> handleSearchPage lib doc sid' sname' requestUrl pg
     = (if hasResults (dom_rows doc) (dom_bodyText doc)
        then map (profileRequest (Some sid') (Some sname')) (parseListingPage (dom_rows doc))
             @ nextPageRequests lib doc sid' sname' requestUrl pg
        else [])
   \<and> length (nextPageRequests lib doc sid' sname' requestUrl pg) \<le> 1
   \<and> list_all (\<lambda>rq. ud_label (rq_userData rq) = ''SEARCH'' \<and> ud_page (rq_userData rq) = Some (pg + 1))
        (nextPageRequests lib doc sid' sname' requestUrl pg)"
proof -
  have a: "handleListPage doc sid sname label
     = map (profileRequest sid sname) (parseListingPage (dom_rows doc))"
    by (simp add: handleListPage_def no_results_no_stubs)
  have b: "list_all (\<lambda>rq. ud_label (rq_userData rq) = ''PROFILE'') (handleListPage doc sid sname label)"
    unfolding a by (simp add: list_all_iff profileRequest_def)
  have c: "handleSearchPage lib doc sid' sname' requestUrl pg
     = (if hasResults (dom_rows doc) (dom_bodyText doc)
        then map (profileRequest (Some sid') (Some sname')) (parseListingPage (dom_rows doc))
             @ nextPageRequests lib doc sid' sname' requestUrl pg
        else [])"
    by (simp add: handleSearchPage_def)
  have d: "length (nextPageRequests lib doc sid' sname' requestUrl pg) \<le> 1"
    using nextPageRequests_shape [of lib doc sid' sname' requestUrl pg] by auto
  have e: "list_all (\<lambda>rq. ud_label (rq_userData rq) = ''SEARCH'' \<and> ud_page (rq_userData rq) = Some (pg + 1))
        (nextPageRequests lib doc sid' sname' requestUrl pg)"
    using nextPageRequests_shape [of lib doc sid' sname' requestUrl pg]
    by (auto simp: searchRequest_def)
  show ?thesis
    by (intro conjI) (rule a b c d e)+
qed

text \<open>
  The claim C4 as stated fails on both handlers. On a page with a valid \<open>Next\<close> link the
  engine returns a candidate and \<open>handleListPage\<close> emits DETAIL tasks only. On a page
  whose \<open>Next\<close> link points to page 1006 the engine returns no candidate and
  \<open>handleSearchPage\<close> emits a LISTING task for that link.
\<close>

theorem listing_handlers_counterexample:
  "findNextPageUrl simpleUrlLib exDocNextFiltered
       ''https://nsr.org.my/list1pview.asp?state_ForSearch=1'' 1 None
     = Some ''https://nsr.org.my/list1pview.asp?state_ForSearch=1&page=2''
   \<and> map (\<lambda>rq. ud_label (rq_userData rq))
         (handleListPage exDocNextFiltered (Some 1) (Some ''Johor'') ''SEARCH'')
     = [''PROFILE'', ''PROFILE'']
   \<and> findNextPageUrl simpleUrlLib exDocNext1006
       ''https://nsr.org.my/list1pview.asp?state_ForSearch=1'' 1 None = None
   \<and> map (\<lambda>rq. (ud_label (rq_userData rq), rq_url rq))
         (handleSearchPage simpleUrlLib exDocNext1006 1 ''Johor''
            ''https://nsr.org.my/list1pview.asp?state_ForSearch=1'' 1)
     = [(''PROFILE'', ''https://nsr.org.my/nsr/ViewSpecialistProfile.jsp?nsrNo=100001''),
        (''PROFILE'', ''https://nsr.org.my/nsr/ViewSpecialistProfile.jsp?nsrNo=100002''),
        (''SEARCH'', ''https://nsr.org.my/list1pview.asp?page=1006'')]"
  by code_simp

subsection \<open>Dedup keys of DETAIL tasks\<close>








subsection \<open>The crawl of the listing pages\<close>






















end
